theory Spec2Isabelle
  imports Complex_Main
begin

section \<open>Numeric values\<close>

text \<open>
  The program computes with NumPy and pandas double-precision values. A value is modelled
  as a finite number, idealised as a real (rounding, overflow, underflow and the sign of
  zero are not represented), or one of the three special values \<open>nan\<close>, \<open>inf\<close> and
  \<open>-inf\<close>. A missing observation of a return series is the value \<open>nan\<close>, as in pandas.
  The operations below follow IEEE 754 on the special values.
\<close>

datatype npfloat = Fin real | NaN | PInf | NInf

fun np_neg :: "npfloat \<Rightarrow> npfloat" where
  "np_neg (Fin a) = Fin (- a)"
| "np_neg NaN = NaN"
| "np_neg PInf = NInf"
| "np_neg NInf = PInf"

fun np_add :: "npfloat \<Rightarrow> npfloat \<Rightarrow> npfloat" where
  "np_add (Fin a) (Fin b) = Fin (a + b)"
| "np_add NaN _ = NaN"
| "np_add _ NaN = NaN"
| "np_add PInf NInf = NaN"
| "np_add NInf PInf = NaN"
| "np_add PInf _ = PInf"
| "np_add _ PInf = PInf"
| "np_add NInf _ = NInf"
| "np_add _ NInf = NInf"

definition np_sub :: "npfloat \<Rightarrow> npfloat \<Rightarrow> npfloat" where
  "np_sub x y = np_add x (np_neg y)"

text \<open>The sign of a value that is not \<open>nan\<close>, and the infinity of a given sign
  (\<open>nan\<close> for the sign 0, which is what \<open>0 * inf\<close> and \<open>0 / 0\<close> give).\<close>

fun np_sign :: "npfloat \<Rightarrow> real" where
  "np_sign (Fin a) = sgn a"
| "np_sign PInf = 1"
| "np_sign NInf = - 1"
| "np_sign NaN = 0"

definition signed_inf :: "real \<Rightarrow> npfloat" where
  "signed_inf s = (if 0 < s then PInf else if s < 0 then NInf else NaN)"

fun np_mul :: "npfloat \<Rightarrow> npfloat \<Rightarrow> npfloat" where
  "np_mul (Fin a) (Fin b) = Fin (a * b)"
| "np_mul NaN _ = NaN"
| "np_mul _ NaN = NaN"
| "np_mul x y = signed_inf (np_sign x * np_sign y)"

text \<open>Division of NumPy scalars and arrays: a zero divisor gives a signed infinity, or
  \<open>nan\<close> for \<open>0 / 0\<close>; nothing is raised.\<close>

fun np_div :: "npfloat \<Rightarrow> npfloat \<Rightarrow> npfloat" where
  "np_div (Fin a) (Fin b) = (if b = 0 then signed_inf (sgn a) else Fin (a / b))"
| "np_div NaN _ = NaN"
| "np_div _ NaN = NaN"
| "np_div (Fin a) _ = Fin 0"
| "np_div x (Fin b) = signed_inf (np_sign x * (if b < 0 then - 1 else 1))"
| "np_div _ _ = NaN"

fun np_sqrt :: "npfloat \<Rightarrow> npfloat" where
  "np_sqrt (Fin a) = (if a < 0 then NaN else Fin (sqrt a))"
| "np_sqrt PInf = PInf"
| "np_sqrt _ = NaN"

fun np_log :: "npfloat \<Rightarrow> npfloat" where
  "np_log (Fin a) = (if a < 0 then NaN else if a = 0 then NInf else Fin (ln a))"
| "np_log PInf = PInf"
| "np_log _ = NaN"

fun np_exp :: "npfloat \<Rightarrow> npfloat" where
  "np_exp (Fin a) = Fin (exp a)"
| "np_exp PInf = PInf"
| "np_exp NInf = Fin 0"
| "np_exp NaN = NaN"

text \<open>\<open>np.maximum(x, 0)\<close> and \<open>clip(min=0)\<close>: both let \<open>nan\<close> through.\<close>

fun np_maximum0 :: "npfloat \<Rightarrow> npfloat" where
  "np_maximum0 (Fin a) = Fin (max a 0)"
| "np_maximum0 NaN = NaN"
| "np_maximum0 PInf = PInf"
| "np_maximum0 NInf = Fin 0"

text \<open>\<open>np.power(x, y)\<close> for a finite exponent \<open>y\<close>, after C's \<open>pow\<close>.\<close>

fun np_power :: "npfloat \<Rightarrow> real \<Rightarrow> npfloat" where
  "np_power (Fin a) y =
     (if y = 0 then Fin 1
      else if 0 < a then Fin (a powr y)
      else if a = 0 then (if 0 < y then Fin 0 else PInf)
      else if y \<in> \<int> then Fin ((if even \<lfloor>y\<rfloor> then 1 else - 1) * (\<bar>a\<bar> powr y))
      else NaN)"
| "np_power NaN y = (if y = 0 then Fin 1 else NaN)"
| "np_power PInf y = (if y = 0 then Fin 1 else if 0 < y then PInf else Fin 0)"
| "np_power NInf y =
     (if y = 0 then Fin 1
      else if y < 0 then Fin 0
      else if y \<in> \<int> \<and> odd \<lfloor>y\<rfloor> then NInf else PInf)"

text \<open>The comparison \<open>x < y\<close>: false whenever an operand is \<open>nan\<close>.\<close>

fun np_less :: "npfloat \<Rightarrow> npfloat \<Rightarrow> bool" where
  "np_less (Fin a) (Fin b) = (a < b)"
| "np_less NaN _ = False"
| "np_less _ NaN = False"
| "np_less NInf y = (y \<noteq> NInf)"
| "np_less x PInf = (x \<noteq> PInf)"
| "np_less _ _ = False"

text \<open>The largest finite double, which \<open>np.nan_to_num\<close> puts in the place of an infinity.\<close>

definition DBL_MAX :: real where
  "DBL_MAX = (2 - 1 / 2 ^ 52) * 2 ^ 1023"

fun nan_to_num :: "npfloat \<Rightarrow> npfloat" where
  "nan_to_num NaN = Fin 0"
| "nan_to_num PInf = Fin DBL_MAX"
| "nan_to_num NInf = Fin (- DBL_MAX)"
| "nan_to_num (Fin a) = Fin a"

text \<open>pandas' \<open>fillna(0)\<close> replaces the missing values only.\<close>

fun fillna0 :: "npfloat \<Rightarrow> npfloat" where
  "fillna0 NaN = Fin 0"
| "fillna0 x = x"

definition np_sum :: "npfloat list \<Rightarrow> npfloat" where
  "np_sum xs = foldr np_add xs (Fin 0)"

definition dropna :: "npfloat list \<Rightarrow> npfloat list" where
  "dropna xs = filter (\<lambda>x. x \<noteq> NaN) xs"

text \<open>
  \<open>np.nanmean\<close> and pandas' \<open>mean()\<close> (which skips missing values): the mean over
  the values that are not \<open>nan\<close>; \<open>nan\<close> when there is none.
\<close>

definition nanmean :: "npfloat list \<Rightarrow> npfloat" where
  "nanmean xs =
     (let ys = dropna xs
      in if ys = [] then NaN else np_div (np_sum ys) (Fin (real (length ys))))"

text \<open>
  \<open>np.nanstd(ddof=1)\<close> and pandas' \<open>std(ddof=1)\<close>: the sample standard deviation
  of the values that are not \<open>nan\<close>; \<open>nan\<close> with fewer than two of them.
\<close>

definition nanstd :: "npfloat list \<Rightarrow> npfloat" where
  "nanstd xs =
     (let ys = dropna xs; m = nanmean ys
      in if length ys \<le> 1 then NaN
         else np_sqrt (np_div (np_sum (map (\<lambda>y. np_power (np_sub y m) 2) ys))
                              (Fin (real (length ys) - 1))))"

section \<open>Exceptions\<close>

text \<open>
  A raised exception is a value: the exception and its traceback, the names of the
  functions of this module that were active when it was raised, outermost first.
\<close>

datatype py_exception =
    AssertionError string
  | ZeroDivisionError
  | IndexError
  | ValueError
  | AttributeError string
  | NameError string

type_synonym py_error = "py_exception \<times> string list"

definition raise :: "py_exception \<Rightarrow> py_error + 'a" where
  "raise e = Inl (e, [])"

definition call :: "string \<Rightarrow> py_error + 'a \<Rightarrow> py_error + 'a" where
  "call f r = (case r of Inl (e, tb) \<Rightarrow> Inl (e, f # tb) | Inr v \<Rightarrow> Inr v)"

definition and_then :: "py_error + 'a \<Rightarrow> ('a \<Rightarrow> py_error + 'b) \<Rightarrow> py_error + 'b" where
  "and_then r k = (case r of Inl e \<Rightarrow> Inl e | Inr v \<Rightarrow> k v)"

text \<open>Division of Python numbers: a zero divisor raises.\<close>

definition py_div :: "real \<Rightarrow> real \<Rightarrow> py_error + real" where
  "py_div a b = (if b = 0 then raise ZeroDivisionError else Inr (a / b))"

text \<open>\<open>xs[i]\<close> on a Python list or an array: an index below zero is taken from the
  end, and an index outside the list raises.\<close>

definition py_getitem :: "'a list \<Rightarrow> int \<Rightarrow> py_error + 'a" where
  "py_getitem xs i =
     (if 0 \<le> i \<and> i < int (length xs) then Inr (xs ! nat i)
      else if i < 0 \<and> - i \<le> int (length xs) then Inr (xs ! nat (int (length xs) + i))
      else raise IndexError)"

section \<open>Return series\<close>

text \<open>
  The functions take a one-dimensional NumPy array, a pandas Series or a pandas DataFrame
  (its columns, each with its label), and tell them apart with \<open>isinstance\<close>. A ratio is
  a scalar or, for a DataFrame, a pandas Series with one entry for each column label.
\<close>

datatype label = Pos nat | Name string

datatype returns =
    NdArray "npfloat list"
  | Series "npfloat list"
  | DataFrame "(label \<times> npfloat list) list"

datatype ratio = Scalar npfloat | ByColumn "(label \<times> npfloat) list"

fun is_pandas :: "returns \<Rightarrow> bool" where
  "is_pandas (NdArray _) = False"
| "is_pandas _ = True"

text \<open>An operation applied to every element, as arithmetic with a scalar is.\<close>

fun elementwise :: "(npfloat \<Rightarrow> npfloat) \<Rightarrow> returns \<Rightarrow> returns" where
  "elementwise f (NdArray xs) = NdArray (map f xs)"
| "elementwise f (Series xs) = Series (map f xs)"
| "elementwise f (DataFrame cs) = DataFrame (map (\<lambda>(c, xs). (c, map f xs)) cs)"

text \<open>A pandas reduction: a scalar for a Series, one value for each column of a DataFrame.
  On an array it stands for the NumPy reduction along axis 0.\<close>

fun reduce :: "(npfloat list \<Rightarrow> npfloat) \<Rightarrow> returns \<Rightarrow> ratio" where
  "reduce f (NdArray xs) = Scalar (f xs)"
| "reduce f (Series xs) = Scalar (f xs)"
| "reduce f (DataFrame cs) = ByColumn (map (\<lambda>(c, xs). (c, f xs)) cs)"

text \<open>Arithmetic of ratios: a scalar is broadcast; two pandas Series over the same column
  labels combine entry by entry.\<close>

fun ratio_map :: "(npfloat \<Rightarrow> npfloat) \<Rightarrow> ratio \<Rightarrow> ratio" where
  "ratio_map f (Scalar x) = Scalar (f x)"
| "ratio_map f (ByColumn vs) = ByColumn (map (\<lambda>(c, x). (c, f x)) vs)"

fun ratio_map2 :: "(npfloat \<Rightarrow> npfloat \<Rightarrow> npfloat) \<Rightarrow> ratio \<Rightarrow> ratio \<Rightarrow> ratio" where
  "ratio_map2 f (Scalar x) (Scalar y) = Scalar (f x y)"
| "ratio_map2 f (Scalar x) (ByColumn ws) = ByColumn (map (\<lambda>(c, y). (c, f x y)) ws)"
| "ratio_map2 f (ByColumn vs) (Scalar y) = ByColumn (map (\<lambda>(c, x). (c, f x y)) vs)"
| "ratio_map2 f (ByColumn vs) (ByColumn ws) =
     ByColumn (map (\<lambda>((c, x), (_, y)). (c, f x y)) (zip vs ws))"

section \<open>Return transforms\<close>

fun pct_to_log_return :: "returns \<Rightarrow> returns" where
  "pct_to_log_return (NdArray xs) =
     NdArray (map (\<lambda>x. np_log (np_add (Fin 1) (nan_to_num x))) xs)"
| "pct_to_log_return r = elementwise (\<lambda>x. np_log (np_add (Fin 1) (fillna0 x))) r"

definition log_to_pct_return :: "returns \<Rightarrow> returns" where
  "log_to_pct_return log_returns = elementwise (\<lambda>x. np_sub (np_exp x) (Fin 1)) log_returns"

definition validate_return_type :: "string \<Rightarrow> py_error + unit" where
  \<open>validate_return_type return_type =
     call ''validate_return_type''
       (if return_type \<notin> {''pct'', ''log''}
        then raise (AssertionError ''mean_method can only be {"pct", "log"}'')
        else Inr ())\<close>

definition maxzero :: "npfloat \<Rightarrow> npfloat" where
  "maxzero x = np_maximum0 x"

section \<open>Lower partial moment\<close>

text \<open>Both branches of \<open>LPM\<close> average over the observations that are not missing.\<close>

fun LPM :: "returns \<Rightarrow> real \<Rightarrow> nat \<Rightarrow> ratio" where
  "LPM (NdArray xs) target_rtn moment =
     (let adj_returns = map (\<lambda>x. np_maximum0 (np_sub (Fin target_rtn) x)) xs
      in Scalar (nanmean (map (\<lambda>a. np_power a (real moment)) adj_returns)))"
| "LPM r target_rtn moment =
     (let adj_returns = elementwise maxzero (elementwise (\<lambda>x. np_sub (Fin target_rtn) x) r)
      in reduce nanmean (elementwise (\<lambda>a. np_power a (real moment)) adj_returns))"

section \<open>Ratios\<close>

text \<open>\<open>x - c\<close> for a series \<open>x\<close> and a number \<open>c\<close>.\<close>

definition minus_scalar :: "returns \<Rightarrow> real \<Rightarrow> returns" where
  "minus_scalar r c = elementwise (\<lambda>x. np_sub x (Fin c)) r"

text \<open>
  \<open>kappa\<close>: the mean is \<open>excess.mean()\<close> for pandas input and \<open>np.nanmean(excess)\<close>
  for an array; the exponent \<open>1.0 / moment\<close> is a division of Python numbers.
\<close>

definition kappa :: "returns \<Rightarrow> real \<Rightarrow> nat \<Rightarrow> string \<Rightarrow> py_error + ratio" where
  "kappa rs target_rtn moment return_type =
     call ''kappa''
       (and_then (validate_return_type return_type) (\<lambda>_.
          let excess = (if return_type = ''pct''
                        then pct_to_log_return (minus_scalar rs target_rtn)
                        else minus_scalar rs target_rtn);
              mean = reduce nanmean excess;
              lpm = LPM rs target_rtn moment
          in and_then (py_div 1 (real moment)) (\<lambda>e.
               Inr (ratio_map2 np_div mean (ratio_map (\<lambda>l. np_power l e) lpm)))))"

definition kappa3 :: "returns \<Rightarrow> real \<Rightarrow> string \<Rightarrow> py_error + ratio" where
  "kappa3 rs target_rtn return_type = call ''kappa3'' (kappa rs target_rtn 3 return_type)"

definition omega :: "returns \<Rightarrow> real \<Rightarrow> string \<Rightarrow> py_error + ratio" where
  "omega rs target_rtn return_type =
     call ''omega''
       (and_then (kappa rs target_rtn 1 return_type) (\<lambda>k.
          Inr (ratio_map (\<lambda>v. np_add (Fin 1) v) k)))"

definition sortino :: "returns \<Rightarrow> real \<Rightarrow> real \<Rightarrow> string \<Rightarrow> py_error + ratio" where
  "sortino rs target_rtn factor return_type =
     call ''sortino''
       (and_then (validate_return_type return_type) (\<lambda>_.
          let rs = (if return_type = ''pct'' then pct_to_log_return rs else rs)
          in if is_pandas rs
             then Inr (ratio_map (\<lambda>v. np_mul v (Fin factor))
                    (ratio_map2 np_div
                       (ratio_map (\<lambda>m. np_sub m (Fin target_rtn)) (reduce nanmean rs))
                       (ratio_map np_sqrt (LPM rs target_rtn 2))))
             else Inr (ratio_map (\<lambda>v. np_mul v (Fin factor))
                    (ratio_map2 np_div
                       (reduce nanmean (minus_scalar rs target_rtn))
                       (ratio_map np_sqrt (LPM rs target_rtn 2))))))"

text \<open>
  \<open>sortino_iid\<close> turns an array into a DataFrame first: one column, labelled 0, for a
  one-dimensional array. \<open>where\<close> keeps the negative entries and puts \<open>nan\<close> elsewhere.
\<close>

definition sortino_iid :: "returns \<Rightarrow> real \<Rightarrow> real \<Rightarrow> string \<Rightarrow> py_error + ratio" where
  "sortino_iid df bench factor return_type =
     call ''sortino_iid''
       (and_then (validate_return_type return_type) (\<lambda>_.
          let df = (case df of NdArray xs \<Rightarrow> DataFrame [(Pos 0, xs)] | _ \<Rightarrow> df);
              excess = (if return_type = ''pct''
                        then pct_to_log_return (minus_scalar df bench)
                        else minus_scalar df bench);
              neg_rtns = elementwise (\<lambda>x. if np_less x (Fin 0) then x else NaN) excess;
              neg_rtns = elementwise fillna0 neg_rtns;
              semi_std = ratio_map np_sqrt
                           (reduce nanmean (elementwise (\<lambda>x. np_power x 2) neg_rtns))
          in Inr (ratio_map2 np_div
                    (ratio_map (\<lambda>m. np_mul (Fin factor) m) (reduce nanmean excess))
                    semi_std)))"

definition sharpe_iid :: "returns \<Rightarrow> real \<Rightarrow> real \<Rightarrow> string \<Rightarrow> py_error + ratio" where
  "sharpe_iid df bench factor return_type =
     call ''sharpe_iid''
       (and_then (validate_return_type return_type) (\<lambda>_.
          let excess = minus_scalar df bench;
              excess = (if return_type = ''pct'' then pct_to_log_return excess else excess)
          in if is_pandas df
             then (let excess_mean = reduce nanmean excess
                   in Inr (ratio_map2 np_div
                             (ratio_map (\<lambda>m. np_mul (Fin factor) m) excess_mean)
                             (reduce nanstd excess)))
             else (let excess_mean = reduce nanmean excess
                   in Inr (ratio_map2 np_div
                             (ratio_map (\<lambda>m. np_mul (Fin factor) m) excess_mean)
                             (reduce nanstd excess)))))"

section \<open>Library functions\<close>

text \<open>
  The functions of statsmodels, scipy and pandas that the module calls and whose results
  are not modelled here are parameters of the model: the autocorrelation function with the
  Ljung-Box p-values (\<open>sts.acf\<close> with \<open>qstat=True\<close>, giving the autocorrelations at
  lags 0 to \<open>nlags\<close> and the p-values at lags 1 to \<open>nlags\<close>), the sample skewness
  and excess kurtosis of pandas and of scipy, pandas' rolling mean and standard deviation
  of a column, the empirical distribution function, \<open>np.linspace\<close> and the normal
  distribution function.
\<close>

record library =
  sts_acf :: "npfloat list \<Rightarrow> int \<Rightarrow> py_error + npfloat list \<times> npfloat list"
  pd_skew :: "npfloat list \<Rightarrow> npfloat"
  pd_kurtosis :: "npfloat list \<Rightarrow> npfloat"
  ss_skew :: "npfloat list \<Rightarrow> npfloat"
  ss_kurtosis :: "npfloat list \<Rightarrow> npfloat"
  pd_rolling_mean :: "npfloat list \<Rightarrow> int \<Rightarrow> py_error + npfloat list"
  pd_rolling_std :: "npfloat list \<Rightarrow> int \<Rightarrow> py_error + npfloat list"
  stt_ECDF :: "returns \<Rightarrow> py_error + (npfloat \<Rightarrow> npfloat)"
  np_linspace :: "ratio \<Rightarrow> ratio \<Rightarrow> int \<Rightarrow> py_error + npfloat list"
  ss_norm_cdf :: "npfloat list \<Rightarrow> ratio \<Rightarrow> ratio \<Rightarrow> py_error + npfloat list"

text \<open>The results of a list comprehension, stopping at the first exception.\<close>

fun collect :: "(py_error + 'a) list \<Rightarrow> py_error + 'a list" where
  "collect [] = Inr []"
| "collect (r # rs) =
     and_then r (\<lambda>v. and_then (collect rs) (\<lambda>vs. Inr (v # vs)))"

definition py_range :: "int \<Rightarrow> int list" where
  "py_range n = map int [0..<nat n]"

section \<open>Rolling and adjusted Sharpe ratios\<close>

definition rolling_ratio ::
  "library \<Rightarrow> int \<Rightarrow> real \<Rightarrow> npfloat list \<Rightarrow> py_error + npfloat list" where
  "rolling_ratio L window factor xs =
     and_then (pd_rolling_mean L xs window) (\<lambda>ms.
     and_then (pd_rolling_std L xs window) (\<lambda>ss.
       Inr (map (\<lambda>(m, s). np_div (np_mul (Fin factor) m) s) (zip ms ss))))"

text \<open>An array has no \<open>rolling\<close> method.\<close>

definition sharpe_iid_rolling ::
  "library \<Rightarrow> returns \<Rightarrow> int \<Rightarrow> real \<Rightarrow> real \<Rightarrow> string \<Rightarrow> py_error + returns" where
  "sharpe_iid_rolling L df window bench factor return_type =
     call ''sharpe_iid_rolling''
       (and_then (validate_return_type return_type) (\<lambda>_.
          let excess = (if return_type = ''pct''
                        then pct_to_log_return (minus_scalar df bench)
                        else minus_scalar df bench)
          in case excess of
               NdArray xs \<Rightarrow> raise (AttributeError ''rolling'')
             | Series xs \<Rightarrow>
                 and_then (rolling_ratio L window factor xs) (\<lambda>vs. Inr (Series vs))
             | DataFrame cs \<Rightarrow>
                 and_then
                   (collect (map (\<lambda>(c, xs).
                      and_then (rolling_ratio L window factor xs) (\<lambda>vs. Inr (c, vs))) cs))
                   (\<lambda>cs'. Inr (DataFrame cs'))))"

definition adjusted_sharpe :: "ratio \<Rightarrow> ratio \<Rightarrow> ratio \<Rightarrow> ratio" where
  "adjusted_sharpe sr skew excess_kurtosis =
     ratio_map2 np_mul sr
       (ratio_map2 np_add
          (ratio_map (\<lambda>v. np_add (Fin 1) v)
             (ratio_map2 np_mul (ratio_map (\<lambda>s. np_div s (Fin 6)) skew) sr))
          (ratio_map2 np_mul (ratio_map (\<lambda>k. np_div k (Fin 24)) excess_kurtosis)
             (ratio_map (\<lambda>s. np_power s 2) sr)))"

definition sharpe_iid_adjusted ::
  "library \<Rightarrow> returns \<Rightarrow> real \<Rightarrow> real \<Rightarrow> string \<Rightarrow> py_error + ratio" where
  "sharpe_iid_adjusted L df bench factor return_type =
     call ''sharpe_iid_adjusted''
       (and_then (sharpe_iid df bench 1 return_type) (\<lambda>sr.
          let skew = (if is_pandas df then reduce (pd_skew L) df else reduce (ss_skew L) df);
              excess_kurt = (if is_pandas df then reduce (pd_kurtosis L) df
                             else reduce (ss_kurtosis L) df)
          in Inr (ratio_map (\<lambda>v. np_mul v (Fin factor))
                    (adjusted_sharpe sr skew excess_kurt))))"

section \<open>Autocorrelation-adjusted Sharpe ratio\<close>

text \<open>The default number of trading days in a year.\<close>

definition trading_days :: real where
  "trading_days = 255"

text \<open>\<open>np.round(q, 0).astype(np.int64)\<close>: to the nearest integer, a tie to the even one.\<close>

definition np_round :: "real \<Rightarrow> int" where
  "np_round x =
     (let f = \<lfloor>x\<rfloor>; d = x - of_int f
      in if d < 1 / 2 then f else if 1 / 2 < d then f + 1
         else if even f then f else f + 1)"

definition sharpe_autocorr_factor ::
  "library \<Rightarrow> npfloat list \<Rightarrow> int \<Rightarrow> py_error + npfloat \<times> npfloat" where
  "sharpe_autocorr_factor L rs q =
     call ''sharpe_autocorr_factor''
       (and_then (sts_acf L rs q) (\<lambda>(acf, pval).
        and_then
          (collect (map (\<lambda>k.
             and_then (py_getitem acf (k + 1)) (\<lambda>a.
               Inr (np_mul (Fin (of_int (q - (k + 1)))) a)))
             (py_range (q - 2))))
          (\<lambda>term.
             let factor = np_div (Fin (of_int q))
                            (np_sqrt (np_add (Fin (of_int q)) (np_mul (Fin 2) (np_sum term))))
             in and_then (py_getitem pval (- 2)) (\<lambda>p. Inr (factor, p)))))"

text \<open>
  \<open>sharpe_non_iid\<close>: an argument \<open>q\<close> that the caller leaves out is \<open>None\<close> here and
  takes the default of the signature. The test on the type of \<open>q\<close> holds for every
  \<open>q\<close>, so \<open>q\<close> is always rounded.
\<close>

definition sharpe_non_iid ::
  "library \<Rightarrow> returns \<Rightarrow> real \<Rightarrow> real option \<Rightarrow> real \<Rightarrow> string \<Rightarrow> py_error + ratio" where
  "sharpe_non_iid L df bench q p_critical return_type =
     call ''sharpe_non_iid''
       (let q = (case q of None \<Rightarrow> trading_days | Some v \<Rightarrow> v);
            q = np_round q
        in and_then (sharpe_iid df bench 1 return_type) (\<lambda>sr.
             case df of
               DataFrame cs \<Rightarrow>
                 and_then
                   (collect (map (\<lambda>(c, xs). sharpe_autocorr_factor L (dropna xs) q) cs))
                   (\<lambda>tests.
                      let factors = map (\<lambda>(adj_factor, pval).
                                       if np_less pval (Fin p_critical) then adj_factor
                                       else np_sqrt (Fin (of_int q))) tests;
                          res = ByColumn (zip (map fst cs) factors)
                      in Inr (ratio_map2 np_mul res sr))
             | NdArray xs \<Rightarrow>
                 and_then (sharpe_autocorr_factor L xs q) (\<lambda>(adj_factor, pval).
                   if np_less pval (Fin p_critical)
                   then Inr (ratio_map (\<lambda>s. np_mul s adj_factor) sr)
                   else Inr (ratio_map (\<lambda>s. np_mul s (np_sqrt (Fin (of_int q)))) sr))
             | Series xs \<Rightarrow>
                 and_then (sharpe_autocorr_factor L xs q) (\<lambda>(adj_factor, pval).
                   if np_less pval (Fin p_critical)
                   then Inr (ratio_map (\<lambda>s. np_mul s adj_factor) sr)
                   else Inr (ratio_map (\<lambda>s. np_mul s (np_sqrt (Fin (of_int q)))) sr))))"

section \<open>Annualised returns\<close>

text \<open>
  The arguments are scalars: Python numbers or NumPy scalars. Python's division of two
  Python numbers raises on a zero divisor; as soon as an operand is a NumPy scalar the
  division is NumPy's, which gives an infinity or \<open>nan\<close> and a warning.
\<close>

datatype number = PyNum real | NpNum npfloat

fun to_np :: "number \<Rightarrow> npfloat" where
  "to_np (PyNum a) = Fin a"
| "to_np (NpNum x) = x"

fun num_div :: "number \<Rightarrow> number \<Rightarrow> py_error + number" where
  "num_div (PyNum a) (PyNum b) = (if b = 0 then raise ZeroDivisionError else Inr (PyNum (a / b)))"
| "num_div x y = Inr (NpNum (np_div (to_np x) (to_np y)))"

text \<open>\<open>np.power\<close> with an exponent that may be infinite or \<open>nan\<close>.\<close>

fun np_power_any :: "npfloat \<Rightarrow> npfloat \<Rightarrow> npfloat" where
  "np_power_any x (Fin y) = np_power x y"
| "np_power_any x NaN = (if x = Fin 1 then Fin 1 else NaN)"
| "np_power_any NaN y = NaN"
| "np_power_any (Fin a) PInf =
     (if \<bar>a\<bar> = 1 then Fin 1 else if \<bar>a\<bar> < 1 then Fin 0 else PInf)"
| "np_power_any (Fin a) NInf =
     (if \<bar>a\<bar> = 1 then Fin 1 else if \<bar>a\<bar> < 1 then PInf else Fin 0)"
| "np_power_any x PInf = PInf"
| "np_power_any x NInf = Fin 0"

definition annualized_pct_return :: "number \<Rightarrow> number \<Rightarrow> number \<Rightarrow> py_error + npfloat" where
  "annualized_pct_return total_return days ann_factor =
     call ''annualized_pct_return''
       (and_then (num_div days ann_factor) (\<lambda>years.
        and_then (num_div (PyNum 1) years) (\<lambda>e.
          let ann = np_sub (np_power_any (to_np total_return) (to_np e)) (Fin 1)
          in Inr ann)))"

definition annualized_log_return :: "number \<Rightarrow> number \<Rightarrow> number \<Rightarrow> py_error + number" where
  "annualized_log_return total_return days ann_factor =
     call ''annualized_log_return''
       (and_then (num_div days ann_factor) (\<lambda>years.
        and_then (num_div total_return years) (\<lambda>ann. Inr ann)))"

section \<open>Empirical Omega\<close>

text \<open>
  The methods \<open>min\<close>, \<open>max\<close>, \<open>mean\<close> and \<open>std(ddof=1)\<close> of the series. On an array
  they do not skip \<open>nan\<close>, and \<open>min\<close> and \<open>max\<close> of an empty array raise; on a pandas
  object they skip the missing values.
\<close>

definition np_min2 :: "npfloat \<Rightarrow> npfloat \<Rightarrow> npfloat" where
  "np_min2 a b = (if a = NaN \<or> b = NaN then NaN else if np_less b a then b else a)"

definition np_max2 :: "npfloat \<Rightarrow> npfloat \<Rightarrow> npfloat" where
  "np_max2 a b = (if a = NaN \<or> b = NaN then NaN else if np_less a b then b else a)"

definition pd_extremum :: "(npfloat \<Rightarrow> npfloat \<Rightarrow> npfloat) \<Rightarrow> npfloat list \<Rightarrow> npfloat" where
  "pd_extremum f xs = (case dropna xs of [] \<Rightarrow> NaN | y # ys \<Rightarrow> fold f ys y)"

definition series_min :: "returns \<Rightarrow> py_error + ratio" where
  "series_min rs =
     (case rs of
        NdArray [] \<Rightarrow> raise ValueError
      | NdArray (x # xs) \<Rightarrow> Inr (Scalar (fold np_min2 xs x))
      | _ \<Rightarrow> Inr (reduce (pd_extremum np_min2) rs))"

definition series_max :: "returns \<Rightarrow> py_error + ratio" where
  "series_max rs =
     (case rs of
        NdArray [] \<Rightarrow> raise ValueError
      | NdArray (x # xs) \<Rightarrow> Inr (Scalar (fold np_max2 xs x))
      | _ \<Rightarrow> Inr (reduce (pd_extremum np_max2) rs))"

definition np_mean :: "npfloat list \<Rightarrow> npfloat" where
  "np_mean xs = np_div (np_sum xs) (Fin (real (length xs)))"

definition np_std :: "npfloat list \<Rightarrow> npfloat" where
  "np_std xs =
     np_sqrt (np_div (np_sum (map (\<lambda>x. np_power (np_sub x (np_mean xs)) 2) xs))
                     (Fin (max (real (length xs) - 1) 0)))"

definition series_mean :: "returns \<Rightarrow> ratio" where
  "series_mean rs = (if is_pandas rs then reduce nanmean rs else reduce np_mean rs)"

definition series_std :: "returns \<Rightarrow> ratio" where
  "series_std rs = (if is_pandas rs then reduce nanstd rs else reduce np_std rs)"

text \<open>
  \<open>omega_empirical\<close> builds the two distribution functions on a grid and has no
  \<open>return\<close> statement: a call that ends returns Python's \<open>None\<close>, the value \<open>None\<close>
  of the option type here. The module does not import \<open>plt\<close>, so plotting raises.
\<close>

definition omega_empirical ::
  "library \<Rightarrow> returns \<Rightarrow> real \<Rightarrow> string \<Rightarrow> bool \<Rightarrow> int \<Rightarrow> py_error + ratio option" where
  "omega_empirical L rs target_rtn return_type plot steps =
     call ''omega_empirical''
       (and_then (validate_return_type return_type) (\<lambda>_.
          let rs = (if return_type = ''pct'' then pct_to_log_return rs else rs)
          in and_then (stt_ECDF L rs) (\<lambda>ecdf.
             and_then (series_min rs) (\<lambda>lo.
             and_then (series_max rs) (\<lambda>hi.
             and_then (np_linspace L lo hi steps) (\<lambda>x.
               let y = map ecdf x
               in and_then (ss_norm_cdf L x (series_mean rs) (series_std rs)) (\<lambda>norm_cdf.
                    if plot then raise (NameError ''plt'') else Inr None)))))))"

section \<open>Notions used in the statements\<close>


text \<open>All the observations of a series, or of the columns of a DataFrame.\<close>

fun observations :: "returns \<Rightarrow> npfloat set" where
  "observations (NdArray xs) = set xs"
| "observations (Series xs) = set xs"
| "observations (DataFrame cs) = (\<Union>(c, xs)\<in>set cs. set xs)"

text \<open>An admissible percentage return: a finite number \<open>p\<close> with \<open>1 + p > 0\<close>.\<close>

fun admissible_pct :: "npfloat \<Rightarrow> bool" where
  "admissible_pct (Fin a) = (0 < 1 + a)"
| "admissible_pct _ = False"

text \<open>The exception that \<open>validate_return_type\<close> raises.\<close>

definition return_type_error :: py_exception where
  \<open>return_type_error = AssertionError ''mean_method can only be {"pct", "log"}''\<close>

text \<open>
  The library at a series for which \<open>sts.acf\<close> reports the autocorrelations \<open>acf\<close>
  and the p-values \<open>pval\<close>; its other functions return without raising. It fixes the
  library parameter where a statement is evaluated at a concrete input.
\<close>

definition library_reporting :: "npfloat list \<Rightarrow> npfloat list \<Rightarrow> library" where
  "library_reporting acf pval =
     \<lparr>sts_acf = (\<lambda>rs q. Inr (acf, pval)),
      pd_skew = (\<lambda>xs. Fin 0), pd_kurtosis = (\<lambda>xs. Fin 0),
      ss_skew = (\<lambda>xs. Fin 0), ss_kurtosis = (\<lambda>xs. Fin 0),
      pd_rolling_mean = (\<lambda>xs w. Inr (map (\<lambda>x. NaN) xs)),
      pd_rolling_std = (\<lambda>xs w. Inr (map (\<lambda>x. NaN) xs)),
      stt_ECDF = (\<lambda>rs. Inr (\<lambda>x. Fin 1)),
      np_linspace = (\<lambda>lo hi n. Inr []),
      ss_norm_cdf = (\<lambda>x m s. Inr [])\<rparr>"

text \<open>
  The sample autocorrelations of a series of finite values at lags 0 to \<open>nlags\<close>, as
  \<open>sts.acf\<close> estimates them with \<open>unbiased=False\<close>.
\<close>

definition autocovariance :: "real list \<Rightarrow> nat \<Rightarrow> real" where
  "autocovariance xs k =
     (let n = length xs; m = sum_list xs / real n
      in (\<Sum>t\<leftarrow>[0..<n - k]. (xs ! t - m) * (xs ! (t + k) - m)) / real n)"

definition sample_acf :: "real list \<Rightarrow> nat \<Rightarrow> real list" where
  "sample_acf xs nlags = map (\<lambda>k. autocovariance xs k / autocovariance xs 0) [0..<nlags + 1]"

text \<open>
  The adjustment factor as the specification writes it: the weighted sum runs over
  \<open>k = 0, ..., q - 2\<close>, so over the lags 1 to \<open>q - 1\<close>.
\<close>

definition lo_factor_spec :: "real list \<Rightarrow> nat \<Rightarrow> real" where
  "lo_factor_spec acf q =
     real q / sqrt (real q + 2 * (\<Sum>k\<leftarrow>[0..<q - 1]. (real q - real (k + 1)) * acf ! (k + 1)))"

text \<open>
  The result of the entry point \<open>f\<close> is the exception of \<open>validate_return_type\<close>,
  raised in a call that \<open>f\<close> itself makes: the traceback holds \<open>f\<close> and
  \<open>validate_return_type\<close> and no function between them.
\<close>

definition validates_itself :: "string \<Rightarrow> py_error + 'a \<Rightarrow> bool" where
  "validates_itself f r = (r = Inl (return_type_error, [f, ''validate_return_type'']))"


section \<open>Facts about exceptions and validation\<close>

lemma and_then_Inr: "and_then (Inr v) k = k v"
  by (simp add: and_then_def)

lemma call_Inr_iff: "call f r = Inr v \<longleftrightarrow> r = Inr v"
  by (auto simp: call_def split: sum.splits)

lemma and_then_Inr_iff: "and_then r k = Inr v \<longleftrightarrow> (\<exists>u. r = Inr u \<and> k u = Inr v)"
  by (auto simp: and_then_def split: sum.splits)

lemma validate_return_type_invalid:
  "return_type \<notin> {''pct'', ''log''} \<Longrightarrow>
     validate_return_type return_type = Inl (return_type_error, [''validate_return_type''])"
  by (simp add: validate_return_type_def return_type_error_def call_def raise_def)

lemma validate_return_type_valid:
  "return_type \<in> {''pct'', ''log''} \<Longrightarrow> validate_return_type return_type = Inr ()"
  by (auto simp: validate_return_type_def call_def)

lemma py_getitem_in_range:
  "0 \<le> i \<Longrightarrow> i < int (length xs) \<Longrightarrow> py_getitem xs i = Inr (xs ! nat i)"
  by (simp add: py_getitem_def)

lemma collect_map_returns:
  "(\<And>x. x \<in> set xs \<Longrightarrow> f x = Inr (g x)) \<Longrightarrow> collect (map f xs) = Inr (map g xs)"
  by (induction xs) (simp_all add: and_then_def)

lemma np_sum_Fin: "np_sum (map Fin xs) = Fin (sum_list xs)"
  by (induction xs) (simp_all add: np_sum_def)

lemma nanmean_Fin:
  "nanmean (map Fin ys) = (if ys = [] then NaN else Fin (sum_list ys / real (length ys)))"
proof -
  have d: "dropna (map Fin ys) = map Fin ys"
    by (simp add: dropna_def)
  show ?thesis
    by (simp add: nanmean_def d np_sum_Fin)
qed

section \<open>The lower partial moment is non-negative\<close>










section \<open>Round trip of the return transforms\<close>

lemma roundtrip_entry:
  assumes "admissible_pct x"
  shows "np_sub (np_exp (np_log (np_add (Fin 1) (nan_to_num x)))) (Fin 1) = x"
    and "np_sub (np_exp (np_log (np_add (Fin 1) (fillna0 x)))) (Fin 1) = x"
  using assms by (cases x; simp add: np_sub_def)+

lemma roundtrip_column:
  assumes "\<forall>x\<in>set xs. admissible_pct x"
  shows "map (\<lambda>x. np_sub (np_exp (np_log (np_add (Fin 1) (nan_to_num x)))) (Fin 1)) xs = xs"
    and "map (\<lambda>x. np_sub (np_exp (np_log (np_add (Fin 1) (fillna0 x)))) (Fin 1)) xs = xs"
  using assms by (simp_all add: map_idI roundtrip_entry)

text \<open>
  Claim C7. For a percentage return series whose entries are all finite with
  \<open>1 + p > 0\<close>, converting to log returns and back gives the series again. Over the
  reals the two transforms are exact inverses there; the tolerance of the claim accounts
  for the rounding of the floating-point operations.
\<close>

theorem pct_log_roundtrip:
  assumes "\<forall>x\<in>observations p. admissible_pct x"
  shows "log_to_pct_return (pct_to_log_return p) = p"
proof (cases p)
  case (NdArray xs)
  then show ?thesis
    using assms roundtrip_column(1) [of xs] by (simp add: log_to_pct_return_def comp_def)
next
  case (Series xs)
  then show ?thesis
    using assms roundtrip_column(2) [of xs] by (simp add: log_to_pct_return_def comp_def)
next
  case (DataFrame cs)
  have "map (\<lambda>(c, xs). (c, map (\<lambda>x. np_sub (np_exp (np_log (np_add (Fin 1) (fillna0 x)))) (Fin 1)) xs)) cs = cs"
  proof (rule map_idI)
    fix cx assume in_cs: "cx \<in> set cs"
    obtain c xs where cx: "cx = (c, xs)" by (cases cx)
    have "\<forall>x\<in>set xs. admissible_pct x"
      using assms DataFrame in_cs cx by fastforce
    then show "(case cx of (c, xs) \<Rightarrow> (c, map (\<lambda>x. np_sub (np_exp (np_log (np_add (Fin 1) (fillna0 x)))) (Fin 1)) xs)) = cx"
      using roundtrip_column(2) [of xs] cx by simp
  qed
  then show ?thesis
    using DataFrame by (simp add: log_to_pct_return_def comp_def case_prod_unfold)
qed

theorem pct_log_roundtrip_witness:
  "admissible_pct (Fin (1 / 2)) \<and> admissible_pct (Fin (- 1 / 4))
   \<and> log_to_pct_return (pct_to_log_return (NdArray [Fin (1 / 2), Fin (- 1 / 4)]))
       = NdArray [Fin (1 / 2), Fin (- 1 / 4)]"
  using pct_log_roundtrip [of "NdArray [Fin (1 / 2), Fin (- 1 / 4)]"]
  by simp

section \<open>Annualised returns\<close>

text \<open>With NumPy scalars for \<open>days\<close> or \<open>ann_factor\<close> no division raises.\<close>

lemma annualized_return_numpy_days:
  "\<exists>v. annualized_pct_return total_return (NpNum days) ann_factor = Inr v"
  "\<exists>v. annualized_log_return total_return (NpNum days) ann_factor = Inr v"
  by (cases ann_factor; simp add: annualized_pct_return_def annualized_log_return_def
      and_then_def call_def)+




section \<open>The autocorrelation adjustment factor\<close>

text \<open>
  The factor that \<open>sharpe_autocorr_factor\<close> computes from finite autocorrelations \<open>a\<close>:
  the sum runs over \<open>k = 0, ..., q - 3\<close>.
\<close>

lemma sharpe_autocorr_factor_formula:
  assumes "sts_acf L rs q = Inr (map Fin a, pval)"
    and "q - 1 \<le> int (length a)" and "2 \<le> length pval"
  shows "sharpe_autocorr_factor L rs q
           = Inr (np_div (Fin (of_int q))
                    (np_sqrt (Fin (of_int q
                       + 2 * (\<Sum>k\<leftarrow>py_range (q - 2). of_int (q - (k + 1)) * a ! nat (k + 1))))),
                  pval ! (length pval - 2))"
proof -
  let ?f = "\<lambda>k. and_then (py_getitem (map Fin a) (k + 1))
                  (\<lambda>a. Inr (np_mul (Fin (of_int (q - (k + 1)))) a))"
  let ?g = "\<lambda>k. of_int (q - (k + 1)) * a ! nat (k + 1)"
  have "\<And>k. k \<in> set (py_range (q - 2)) \<Longrightarrow> ?f k = Inr ((Fin \<circ> ?g) k)"
  proof -
    fix k assume "k \<in> set (py_range (q - 2))"
    then have "0 \<le> k + 1" "k + 1 < int (length (map Fin a))" "nat (k + 1) < length a"
      using assms(2) by (auto simp: py_range_def)
    then show "?f k = Inr ((Fin \<circ> ?g) k)"
      by (simp add: py_getitem_in_range and_then_def)
  qed
  then have c: "collect (map ?f (py_range (q - 2))) = Inr (map (Fin \<circ> ?g) (py_range (q - 2)))"
    by (rule collect_map_returns)
  have p: "py_getitem pval (- 2) = Inr (pval ! (length pval - 2))"
    using assms(3) by (simp add: py_getitem_def nat_diff_distrib' of_nat_diff)
  have s: "np_sum (map (Fin \<circ> ?g) (py_range (q - 2))) = Fin (sum_list (map ?g (py_range (q - 2))))"
    using np_sum_Fin [of "map ?g (py_range (q - 2))"] by (simp add: comp_def)
  show ?thesis
    by (simp only: sharpe_autocorr_factor_def assms(1) and_then_Inr prod.case c p Let_def s,
        simp add: call_def)
qed

text \<open>The series 1, 0, 0, 1 has the autocorrelations 1, -1/4, -1/2 and 1/4.\<close>

lemma sample_acf_example: "sample_acf [1, 0, 0, 1] 3 = [1, - 1 / 4, - 1 / 2, 1 / 4]"
  by (simp add: sample_acf_def autocovariance_def upt_rec)

lemma lo_factor_spec_example: "lo_factor_spec [1, - 1 / 4, - 1 / 2, 1 / 4] 3 = 3"
  by (simp add: lo_factor_spec_def upt_rec)

text \<open>
  Claim C1. At the series 1, 0, 0, 1 and \<open>q = 3\<close> the factor of
  \<open>sharpe_autocorr_factor\<close> is \<open>3 / sqrt 2\<close>, whatever the p-values: its sum stops at
  \<open>k = q - 3\<close> and leaves the autocorrelation at lag \<open>q - 1 = 2\<close> out. The formula of
  the claim, whose sum includes lag 2, gives 3.
\<close>

theorem sharpe_autocorr_factor_omits_last_lag:
  "sharpe_autocorr_factor
      (library_reporting [Fin 1, Fin (- 1 / 4), Fin (- 1 / 2), Fin (1 / 4)] [p1, p2, p3])
      [Fin 1, Fin 0, Fin 0, Fin 1] 3
     = Inr (Fin (3 / sqrt 2), p2)
   \<and> lo_factor_spec (sample_acf [1, 0, 0, 1] 3) 3 = 3
   \<and> 3 / sqrt 2 \<noteq> (3::real)"
proof -
  have a: "sharpe_autocorr_factor
      (library_reporting [Fin 1, Fin (- 1 / 4), Fin (- 1 / 2), Fin (1 / 4)] [p1, p2, p3])
      [Fin 1, Fin 0, Fin 0, Fin 1] 3
     = Inr (Fin (3 / sqrt 2), p2)"
    by (simp add: sharpe_autocorr_factor_def library_reporting_def and_then_def call_def
        py_range_def py_getitem_def np_sum_def)
  have b: "lo_factor_spec (sample_acf [1, 0, 0, 1] 3) 3 = 3"
    unfolding sample_acf_example by (rule lo_factor_spec_example)
  have "3 / sqrt 2 < (3::real)" by (simp add: pos_divide_less_eq)
  then have c: "3 / sqrt 2 \<noteq> (3::real)" by simp
  show ?thesis using a b c by blast
qed

section \<open>The default aggregation horizon\<close>









section \<open>Percentage returns in the ratios\<close>

lemma ln_half: "ln (1 / 2 :: real) = - ln 2"
  by (simp add: ln_div)

lemma two_ln_two_gt_one: "1 < 2 * ln (2::real)"
proof -
  have "ln (1 / 2 :: real) \<le> 1 / 2 - 1" by (rule ln_le_minus_one) simp
  moreover have "ln (1 / 2 :: real) \<noteq> 1 / 2 - 1"
    using ln_eq_minus_one [of "1 / 2 :: real"] by auto
  ultimately have "ln (1 / 2 :: real) < - (1 / 2)" by simp
  then show ?thesis by (simp add: ln_half)
qed

text \<open>\<open>sortino\<close> converts percentage returns first and computes everything on the result.\<close>

lemma sortino_pct_converts_first:
  "sortino rs target_rtn factor ''pct'' = sortino (pct_to_log_return rs) target_rtn factor ''log''"
  by (simp add: sortino_def validate_return_type_def call_def and_then_def)

text \<open>
  Claim C2. For the percentage returns 1, -1/2, 1 and target 0, \<open>kappa\<close> with moment 1
  gives \<open>2 * ln 2\<close>: the mean is taken of the log returns, the lower partial moment of
  the percentage returns as given. Computed entirely on the converted series, as the claim
  says, the ratio is 1; \<open>omega\<close> differs in the same way.
\<close>

theorem kappa_pct_denominator_not_converted:
  "kappa (NdArray [Fin 1, Fin (- 1 / 2), Fin 1]) 0 1 ''pct'' = Inr (Scalar (Fin (2 * ln 2)))
   \<and> kappa (pct_to_log_return (NdArray [Fin 1, Fin (- 1 / 2), Fin 1])) 0 1 ''log''
       = Inr (Scalar (Fin 1))
   \<and> omega (NdArray [Fin 1, Fin (- 1 / 2), Fin 1]) 0 ''pct'' = Inr (Scalar (Fin (1 + 2 * ln 2)))
   \<and> omega (pct_to_log_return (NdArray [Fin 1, Fin (- 1 / 2), Fin 1])) 0 ''log''
       = Inr (Scalar (Fin 2))
   \<and> 2 * ln 2 \<noteq> (1::real)"
proof -
  have pos: "0 < ln (2::real)" by simp
  have k1: "kappa (NdArray [Fin 1, Fin (- 1 / 2), Fin 1]) 0 1 ''pct'' = Inr (Scalar (Fin (2 * ln 2)))"
    using pos
    by (simp add: kappa_def validate_return_type_def call_def and_then_def py_div_def
        minus_scalar_def nanmean_def dropna_def np_sum_def np_sub_def ln_half)
  have k2: "kappa (pct_to_log_return (NdArray [Fin 1, Fin (- 1 / 2), Fin 1])) 0 1 ''log''
       = Inr (Scalar (Fin 1))"
    using pos
    by (simp add: kappa_def validate_return_type_def call_def and_then_def py_div_def
        minus_scalar_def nanmean_def dropna_def np_sum_def np_sub_def ln_half)
  have o1: "omega (NdArray [Fin 1, Fin (- 1 / 2), Fin 1]) 0 ''pct'' = Inr (Scalar (Fin (1 + 2 * ln 2)))"
    unfolding omega_def k1 by (simp add: call_def and_then_def)
  have o2: "omega (pct_to_log_return (NdArray [Fin 1, Fin (- 1 / 2), Fin 1])) 0 ''log''
       = Inr (Scalar (Fin 2))"
    unfolding omega_def k2 by (simp add: call_def and_then_def)
  show ?thesis using k1 k2 o1 o2 two_ln_two_gt_one by simp
qed

text \<open>
  On a pandas Series of log returns without missing or infinite values the two Sortino
  ratios are the same number.
\<close>

lemma scale_ratio_agree:
  "np_mul (np_div (Fin m) (np_sqrt (Fin v))) (Fin f)
     = np_div (np_mul (Fin f) (Fin m)) (np_sqrt (Fin v))"
  by (auto simp: signed_inf_def sgn_if mult_less_0_iff zero_less_mult_iff)

lemma sortino_agrees_without_gaps:
  "sortino (Series (map Fin ys)) target_rtn factor ''log''
     = sortino_iid (Series (map Fin ys)) target_rtn factor ''log''"
proof (cases "ys = []")
  case True
  then show ?thesis
    by (simp add: sortino_def sortino_iid_def validate_return_type_def call_def and_then_def
        minus_scalar_def nanmean_def dropna_def np_sub_def)
next
  case False
  let ?n = "real (length ys)"
  have n: "?n \<noteq> 0" using False by simp
  have m1: "nanmean (map Fin ys) = Fin (sum_list ys / ?n)"
    using False by (simp add: nanmean_Fin)
  have e1: "map (\<lambda>x. np_sub x (Fin target_rtn)) (map Fin ys)
              = map Fin (map (\<lambda>y. y - target_rtn) ys)"
    by (simp add: np_sub_def)
  have e2: "sum_list (map (\<lambda>y. y - target_rtn) ys) = sum_list ys - ?n * target_rtn"
    by (induction ys) (simp_all add: algebra_simps)
  have m2: "nanmean (map (\<lambda>x. np_sub x (Fin target_rtn)) (map Fin ys))
              = Fin (sum_list ys / ?n - target_rtn)"
    unfolding e1 nanmean_Fin e2 using False n by (simp add: diff_divide_distrib)
  let ?sq = "map (\<lambda>y. (max (target_rtn - y) 0) ^ 2) ys"
  have l1: "map (\<lambda>a. np_power a 2) (map maxzero (map (\<lambda>x. np_sub (Fin target_rtn) x) (map Fin ys)))
              = map Fin ?sq"
    by (auto simp: maxzero_def np_sub_def max_def)
  have l2: "map (\<lambda>x. np_power x 2)
              (map fillna0 (map (\<lambda>x. if np_less x (Fin 0) then x else NaN)
                 (map (\<lambda>x. np_sub x (Fin target_rtn)) (map Fin ys))))
              = map Fin ?sq"
    by (auto simp: np_sub_def max_def abs_if)
  have v: "nanmean (map Fin ?sq) = Fin (sum_list ?sq / ?n)"
    unfolding nanmean_Fin using False by simp
  have lhs: "sortino (Series (map Fin ys)) target_rtn factor ''log''
               = Inr (Scalar (np_mul (np_div (Fin (sum_list ys / ?n - target_rtn))
                                              (np_sqrt (Fin (sum_list ?sq / ?n))))
                                      (Fin factor)))"
    by (simp add: sortino_def validate_return_type_def call_def and_then_def
        l1 m1 v np_sub_def Let_def del: map_map np_mul.simps np_div.simps np_sqrt.simps)
  have rhs: "sortino_iid (Series (map Fin ys)) target_rtn factor ''log''
               = Inr (Scalar (np_div (np_mul (Fin factor) (Fin (sum_list ys / ?n - target_rtn)))
                                      (np_sqrt (Fin (sum_list ?sq / ?n)))))"
    by (simp add: sortino_iid_def validate_return_type_def call_def and_then_def
        minus_scalar_def l2 m2 v Let_def del: map_map np_mul.simps np_div.simps np_sqrt.simps)
  show ?thesis
    unfolding lhs rhs by (simp only: scale_ratio_agree)
qed

text \<open>
  Claim C3. For the log returns \<open>nan\<close>, -1, 3 (one missing observation), target 0 and
  factor 1, \<open>sortino\<close> gives \<open>sqrt 2\<close> and \<open>sortino_iid\<close> gives \<open>sqrt 3\<close>: the lower
  partial moment averages over the two observations that are present, the semi-deviation
  over all three rows.
\<close>

theorem sortino_and_sortino_iid_differ_on_gaps:
  "sortino (Series [NaN, Fin (- 1), Fin 3]) 0 1 ''log'' = Inr (Scalar (Fin (1 / sqrt (1 / 2))))
   \<and> sortino_iid (Series [NaN, Fin (- 1), Fin 3]) 0 1 ''log'' = Inr (Scalar (Fin (1 / sqrt (1 / 3))))
   \<and> 1 / 10 ^ 9 < 1 / sqrt (1 / 3) - 1 / sqrt (1 / 2)"
proof -
  have s1: "sortino (Series [NaN, Fin (- 1), Fin 3]) 0 1 ''log'' = Inr (Scalar (Fin (1 / sqrt (1 / 2))))"
    by (simp add: sortino_def validate_return_type_def call_def and_then_def maxzero_def
        minus_scalar_def nanmean_def dropna_def np_sum_def np_sub_def)
  have s2: "sortino_iid (Series [NaN, Fin (- 1), Fin 3]) 0 1 ''log'' = Inr (Scalar (Fin (1 / sqrt (1 / 3))))"
    by (simp add: sortino_iid_def validate_return_type_def call_def and_then_def
        minus_scalar_def nanmean_def dropna_def np_sum_def np_sub_def)
  have a: "1 / sqrt (1 / 3) = sqrt (3::real)" "1 / sqrt (1 / 2) = sqrt (2::real)"
    by (simp_all add: real_sqrt_divide)
  have "sqrt (2::real) < 3 / 2" by (rule real_less_lsqrt) (simp_all add: power2_eq_square)
  moreover have "17 / 10 < sqrt (3::real)" by (rule real_less_rsqrt) (simp add: power2_eq_square)
  ultimately have d: "1 / 10 ^ 9 < 1 / sqrt (1 / 3) - 1 / sqrt (1 / (2::real))" unfolding a by simp
  show ?thesis using s1 s2 d by blast
qed

section \<open>Validation of the return type\<close>

lemma sharpe_iid_invalid:
  "return_type \<notin> {''pct'', ''log''} \<Longrightarrow>
     sharpe_iid df bench factor return_type
       = Inl (return_type_error, [''sharpe_iid'', ''validate_return_type''])"
  by (simp add: sharpe_iid_def validate_return_type_invalid and_then_def call_def)

lemma kappa_invalid:
  "return_type \<notin> {''pct'', ''log''} \<Longrightarrow>
     kappa rs target_rtn moment return_type
       = Inl (return_type_error, [''kappa'', ''validate_return_type''])"
  by (simp add: kappa_def validate_return_type_invalid and_then_def call_def)

text \<open>
  Claim C6, as amended. Called with a return type other than \<open>pct\<close> and \<open>log\<close>, each
  of the eight ratio functions raises the \<open>AssertionError\<close> of \<open>validate_return_type\<close>,
  whatever the data. \<open>kappa\<close>, \<open>sortino\<close>, \<open>sortino_iid\<close>, \<open>sharpe_iid\<close> and
  \<open>sharpe_iid_rolling\<close> make the validating call themselves; \<open>omega\<close> raises through
  its call of \<open>kappa\<close>, and \<open>sharpe_iid_adjusted\<close> and \<open>sharpe_non_iid\<close> through
  their call of \<open>sharpe_iid\<close>.
\<close>

theorem invalid_return_type_raises:
  assumes "return_type \<notin> {''pct'', ''log''}"
  shows "validates_itself ''kappa'' (kappa rs target_rtn moment return_type)
       \<and> validates_itself ''sortino'' (sortino rs target_rtn factor return_type)
       \<and> validates_itself ''sortino_iid'' (sortino_iid rs target_rtn factor return_type)
       \<and> validates_itself ''sharpe_iid'' (sharpe_iid rs target_rtn factor return_type)
       \<and> validates_itself ''sharpe_iid_rolling''
            (sharpe_iid_rolling L rs window target_rtn factor return_type)
       \<and> omega rs target_rtn return_type
            = Inl (return_type_error, [''omega'', ''kappa'', ''validate_return_type''])
       \<and> sharpe_iid_adjusted L rs target_rtn factor return_type
            = Inl (return_type_error,
                   [''sharpe_iid_adjusted'', ''sharpe_iid'', ''validate_return_type''])
       \<and> sharpe_non_iid L rs target_rtn q p_critical return_type
            = Inl (return_type_error,
                   [''sharpe_non_iid'', ''sharpe_iid'', ''validate_return_type''])"
proof -
  note v = validate_return_type_invalid [OF assms]
  have 1: "validates_itself ''kappa'' (kappa rs target_rtn moment return_type)"
    by (simp add: validates_itself_def kappa_invalid [OF assms])
  have 2: "validates_itself ''sortino'' (sortino rs target_rtn factor return_type)"
    by (simp add: validates_itself_def sortino_def v and_then_def call_def)
  have 3: "validates_itself ''sortino_iid'' (sortino_iid rs target_rtn factor return_type)"
    by (simp add: validates_itself_def sortino_iid_def v and_then_def call_def)
  have 4: "validates_itself ''sharpe_iid'' (sharpe_iid rs target_rtn factor return_type)"
    by (simp add: validates_itself_def sharpe_iid_invalid [OF assms])
  have 5: "validates_itself ''sharpe_iid_rolling''
            (sharpe_iid_rolling L rs window target_rtn factor return_type)"
    by (simp add: validates_itself_def sharpe_iid_rolling_def v and_then_def call_def)
  have 6: "omega rs target_rtn return_type
            = Inl (return_type_error, [''omega'', ''kappa'', ''validate_return_type''])"
    by (simp add: omega_def kappa_invalid [OF assms] and_then_def call_def)
  have 7: "sharpe_iid_adjusted L rs target_rtn factor return_type
            = Inl (return_type_error,
                   [''sharpe_iid_adjusted'', ''sharpe_iid'', ''validate_return_type''])"
    by (simp add: sharpe_iid_adjusted_def sharpe_iid_invalid [OF assms] and_then_def call_def)
  have 8: "sharpe_non_iid L rs target_rtn q p_critical return_type
            = Inl (return_type_error,
                   [''sharpe_non_iid'', ''sharpe_iid'', ''validate_return_type''])"
    by (simp add: sharpe_non_iid_def sharpe_iid_invalid [OF assms] and_then_def call_def
        Let_def)
  show ?thesis using 1 2 3 4 5 6 7 8 by blast
qed

theorem invalid_return_type_raises_witness:
  "validates_itself ''kappa'' (kappa (NdArray [Fin 1, NaN]) 0 2 ''simple'')
   \<and> validates_itself ''sharpe_iid_rolling''
        (sharpe_iid_rolling (library_reporting [] []) (NdArray [Fin 1, NaN]) 3 0 1 ''simple'')
   \<and> omega (NdArray [Fin 1, NaN]) 0 ''simple''
        = Inl (return_type_error, [''omega'', ''kappa'', ''validate_return_type''])
   \<and> sharpe_non_iid (library_reporting [] []) (NdArray [Fin 1, NaN]) 0 None (1 / 20) ''simple''
        = Inl (return_type_error, [''sharpe_non_iid'', ''sharpe_iid'', ''validate_return_type''])"
  using invalid_return_type_raises [of "''simple''" "NdArray [Fin 1, NaN]" 0 2 1
      "library_reporting [] []" 3 None "1 / 20"]
  by simp

text \<open>Claim C6 as stated fails: \<open>omega\<close> does not validate the return type itself.\<close>

theorem omega_validates_through_kappa:
  "\<not> validates_itself ''omega'' (omega (NdArray [Fin 1, NaN]) 0 ''simple'')"
  by (simp add: validates_itself_def omega_def kappa_def validate_return_type_def
      return_type_error_def and_then_def call_def raise_def)

section \<open>The shape of the result\<close>







section \<open>Empirical Omega\<close>

lemma omega_empirical_no_number:
  "omega_empirical L rs target_rtn return_type plot steps \<noteq> Inr (Some v)"
  by (auto simp: omega_empirical_def call_Inr_iff and_then_Inr_iff Let_def raise_def)

lemma series_min_returns: "rs \<noteq> NdArray [] \<Longrightarrow> \<exists>lo. series_min rs = Inr lo"
  by (auto simp: series_min_def split: returns.splits list.splits)

lemma series_max_returns: "rs \<noteq> NdArray [] \<Longrightarrow> \<exists>hi. series_max rs = Inr hi"
  by (auto simp: series_max_def split: returns.splits list.splits)

lemma pct_to_log_return_nonempty: "rs \<noteq> NdArray [] \<Longrightarrow> pct_to_log_return rs \<noteq> NdArray []"
  by (cases rs) auto

text \<open>
  Claim C10. With \<open>plot=False\<close>, \<open>omega_empirical\<close> never returns a number: a call
  that ends returns \<open>None\<close>. It does end, with \<open>None\<close>, for a valid return type, a
  series that is not an empty array and library calls that do not raise.
\<close>

theorem omega_empirical_returns_None:
  "(\<forall>v. omega_empirical L rs target_rtn return_type False steps \<noteq> Inr (Some v))
   \<and> (return_type \<in> {''pct'', ''log''} \<and> rs \<noteq> NdArray []
        \<and> (\<forall>r. \<exists>e. stt_ECDF L r = Inr e)
        \<and> (\<forall>lo hi n. \<exists>x. np_linspace L lo hi n = Inr x)
        \<and> (\<forall>x m s. \<exists>c. ss_norm_cdf L x m s = Inr c)
      \<longrightarrow> omega_empirical L rs target_rtn return_type False steps = Inr None)"
proof (intro conjI impI allI)
  fix v
  show "omega_empirical L rs target_rtn return_type False steps \<noteq> Inr (Some v)"
    by (rule omega_empirical_no_number)
next
  assume a: "return_type \<in> {''pct'', ''log''} \<and> rs \<noteq> NdArray []
        \<and> (\<forall>r. \<exists>e. stt_ECDF L r = Inr e)
        \<and> (\<forall>lo hi n. \<exists>x. np_linspace L lo hi n = Inr x)
        \<and> (\<forall>x m s. \<exists>c. ss_norm_cdf L x m s = Inr c)"
  define rs' where "rs' = (if return_type = ''pct'' then pct_to_log_return rs else rs)"
  have valid: "return_type \<in> {''pct'', ''log''}" using a by blast
  have ne: "rs' \<noteq> NdArray []"
    using a pct_to_log_return_nonempty by (simp add: rs'_def)
  obtain e where e: "stt_ECDF L rs' = Inr e" using a by blast
  obtain lo where lo: "series_min rs' = Inr lo" using series_min_returns [OF ne] by blast
  obtain hi where hi: "series_max rs' = Inr hi" using series_max_returns [OF ne] by blast
  obtain x where x: "np_linspace L lo hi steps = Inr x" using a by blast
  obtain c where c: "ss_norm_cdf L x (series_mean rs') (series_std rs') = Inr c"
    using a by blast
  show "omega_empirical L rs target_rtn return_type False steps = Inr None"
    unfolding omega_empirical_def validate_return_type_valid [OF valid] Let_def
    using e lo hi x c by (simp add: and_then_def call_def rs'_def)
qed

theorem omega_empirical_returns_None_witness:
  "omega_empirical (library_reporting [] []) (NdArray [Fin (1 / 10), NaN, Fin (- 1 / 20)]) 0
      ''pct'' False 1000 = Inr None"
  using omega_empirical_returns_None [of "library_reporting [] []"
      "NdArray [Fin (1 / 10), NaN, Fin (- 1 / 20)]" 0 "''pct''" 1000]
  by (simp add: library_reporting_def)

end
